theory Spec2Isabelle
  imports Main "HOL-Library.Word"
begin

section \<open>Host objects as the bridge sees them\<close>

text \<open>
  The bridge only ever probes a host object through \<open>hasattr\<close>, \<open>getattr\<close>,
  \<open>isinstance<str>\<close>, a call without arguments and the casts to \<open>std::string\<close>
  and \<open>bytes\<close>. A host object is therefore a builtin value, a callable that returns a
  fixed object when called without arguments, or an instance with a table of attributes.
\<close>

datatype py_object =
    PyNone
  | PyBool bool
  | PyInt int
  | PyStr string
  | PyBytes string
  | PyList "py_object list"
  | PyDict "(py_object \<times> py_object) list"
  | PyMethod py_object
  | PyInstance "(string \<times> py_object) list"

text \<open>
  The exceptions thrown by the three source files. \<open>out_of_range idx max\<close> stands for
  the message \<^verbatim>\<open>"Bad index: <idx> (max: <max>)"\<close> of \<open>CheckIndex\<close>.
\<close>

datatype error =
    invalid_argument string
  | runtime_error string
  | out_of_range "32 word" "32 word"
  | AttributeError string
  | value_error string
  | type_error string
  | key_error string
  | cast_error

fun getattr :: "py_object \<Rightarrow> string \<Rightarrow> py_object option" where
  "getattr (PyInstance attrs) name = map_of attrs name"
| "getattr _ name = None"

definition hasattr :: "py_object \<Rightarrow> string \<Rightarrow> bool" where
  "hasattr obj name = (getattr obj name \<noteq> None)"

fun isinstance_str :: "py_object \<Rightarrow> bool" where
  "isinstance_str (PyStr s) = True"
| "isinstance_str _ = False"

text \<open>\<open>cast<std::string>\<close>: text and byte buffers load, anything else is a cast error.\<close>

fun cast_string :: "py_object \<Rightarrow> error + string" where
  "cast_string (PyStr s) = Inr s"
| "cast_string (PyBytes s) = Inr s"
| "cast_string _ = Inl cast_error"

text \<open>\<open>cast<bytes>\<close>: only a byte buffer loads.\<close>

fun cast_bytes :: "py_object \<Rightarrow> error + string" where
  "cast_bytes (PyBytes s) = Inr s"
| "cast_bytes _ = Inl cast_error"

text \<open>Calling an attribute without arguments.\<close>

fun call0 :: "py_object \<Rightarrow> error + py_object" where
  "call0 (PyMethod r) = Inr r"
| "call0 _ = Inl (type_error ''object is not callable'')"

section \<open>proto\_utils.h: the wrapped-proto marker\<close>

definition kIsWrappedCProtoAttr :: string where
  "kIsWrappedCProtoAttr = ''_is_wrapped_c_proto''"

definition IsWrappedCProto :: "py_object \<Rightarrow> bool" where
  "IsWrappedCProto handle = hasattr handle kIsWrappedCProtoAttr"

section \<open>proto\_utils.cc: the index check of the field containers\<close>

text \<open>
  \<open>ProtoFieldContainerBase::CheckIndex(int idx, int allowed_size)\<close>; the first argument
  is what the container's \<open>Size()\<close> returns. Both \<open>int\<close>s are 32-bit and compared signed.
\<close>

definition CheckIndex :: "32 word \<Rightarrow> 32 word \<Rightarrow> 32 word \<Rightarrow> error + unit" where
  "CheckIndex Size idx allowed_size_in =
     (let allowed_size = (if sint allowed_size_in < 0 then Size else allowed_size_in)
      in if sint idx < 0 \<or> sint idx \<ge> sint allowed_size
         then Inl (out_of_range idx (allowed_size - 1))
         else Inr ())"

text \<open>
  Modelled from the spec: the index operations of the repeated-field container
  (\<open>GetItem\<close>, \<open>SetItem\<close>, \<open>DelItem\<close>) are bound in proto.cc, but their code is not in
  the source files. The specification gives an index read a negative-index wrap and the
  out-of-range error for an index outside \<open>[-n, n)\<close>. The model adds the container's size
  to a negative index and runs the source's \<open>CheckIndex\<close> on the outcome against the
  container's own size; it returns the position that the operation then reads.
\<close>

definition GetItem_index :: "32 word \<Rightarrow> 32 word \<Rightarrow> error + 32 word" where
  "GetItem_index Size idx =
     (let wrapped = (if sint idx < 0 then Size + idx else idx)
      in case CheckIndex Size wrapped (- 1) of Inl e \<Rightarrow> Inl e | Inr u \<Rightarrow> Inr wrapped)"

section \<open>The message library, as far as the bridge reads it\<close>

text \<open>
  \<open>proto2::FieldDescriptor::Type\<close>, in the order in which proto.cc exports it.
\<close>

datatype Type =
    TYPE_DOUBLE | TYPE_FLOAT | TYPE_INT64 | TYPE_UINT64 | TYPE_INT32 | TYPE_FIXED64
  | TYPE_FIXED32 | TYPE_BOOL | TYPE_STRING | TYPE_GROUP | TYPE_MESSAGE | TYPE_BYTES
  | TYPE_UINT32 | TYPE_ENUM | TYPE_SFIXED32 | TYPE_SFIXED64 | TYPE_SINT32 | TYPE_SINT64

text \<open>
  A field descriptor carries the three tests the bridge branches on (\<open>is_map()\<close>,
  \<open>is_repeated()\<close>, \<open>type()\<close>), each read on its own as the source does.
\<close>

record FieldDescriptor =
  field_name :: string
  field_type :: Type
  is_map :: bool
  is_repeated :: bool

record Descriptor =
  full_name :: string
  field_descs :: "FieldDescriptor list"

text \<open>
  A message is its descriptor and the values its fields currently hold, by field name.
\<close>

record Message =
  descriptor :: Descriptor
  field_values :: "(string \<times> py_object) list"

definition GetDescriptor :: "Message \<Rightarrow> Descriptor" where
  "GetDescriptor message = descriptor message"

definition GetTypeName :: "Message \<Rightarrow> string" where
  "GetTypeName message = full_name (descriptor message)"

definition FindFieldByName :: "Descriptor \<Rightarrow> string \<Rightarrow> FieldDescriptor option" where
  "FindFieldByName d name = find (\<lambda>f. field_name f = name) (field_descs d)"

text \<open>\<open>prototype->New()\<close>: a default instance of the prototype's type.\<close>

definition New :: "Message \<Rightarrow> Message" where
  "New prototype = \<lparr>descriptor = descriptor prototype, field_values = []\<rparr>"

text \<open>
  The services of the message library that the bridge calls and whose code is outside
  the repository: the generated descriptor pool, the message factory and the wire codec.
  \<open>ParseFromString\<close> returns its success flag together with the message it wrote into.
\<close>

record proto2 =
  generated_pool :: "Descriptor list"
  GetPrototype :: "Descriptor \<Rightarrow> Message option"
  SerializeAsString :: "Message \<Rightarrow> string"
  ParseFromString :: "Message \<Rightarrow> string \<Rightarrow> bool \<times> Message"

definition FindMessageTypeByName :: "proto2 \<Rightarrow> string \<Rightarrow> Descriptor option" where
  "FindMessageTypeByName lib name = find (\<lambda>d. full_name d = name) (generated_pool lib)"

text \<open>
  The field handlers that \<open>DispatchFieldDescriptor\<close> selects are templates declared
  outside the three source files; they are parameters here. A handler returns the
  message as it left it, also when it throws.
\<close>

type_synonym handler = "FieldDescriptor \<Rightarrow> Message \<Rightarrow> py_object \<Rightarrow> (error + unit) \<times> Message"

record handlers =
  SetProtoSingularField :: handler
  SetProtoRepeatedField :: handler

section \<open>proto\_utils.cc\<close>

definition PyProtoFullName :: "py_object \<Rightarrow> error + string option" where
  "PyProtoFullName py_proto =
     (case getattr py_proto ''DESCRIPTOR'' of
        None \<Rightarrow> Inr None
      | Some py_descriptor \<Rightarrow>
          (case getattr py_descriptor ''full_name'' of
             None \<Rightarrow> Inr None
           | Some n \<Rightarrow> (case cast_string n of Inl e \<Rightarrow> Inl e | Inr s \<Rightarrow> Inr (Some s))))"

definition PyProtoSerializeToString :: "py_object \<Rightarrow> error + string" where
  "PyProtoSerializeToString py_proto =
     (case getattr py_proto ''SerializeToString'' of
        Some f \<Rightarrow> (case call0 f of Inl e \<Rightarrow> Inl e | Inr r \<Rightarrow> cast_string r)
      | None \<Rightarrow> Inl (invalid_argument ''Passed python object is not a proto.''))"

definition GetFieldDescriptor :: "Message \<Rightarrow> string \<Rightarrow> error + FieldDescriptor" where
  "GetFieldDescriptor message name =
     (case FindFieldByName (GetDescriptor message) name of
        None \<Rightarrow> Inl (AttributeError ([CHR 0x27] @ GetTypeName message @ [CHR 0x27]
                        @ '' object has no attribute '' @ [CHR 0x27] @ name @ [CHR 0x27]))
      | Some field_desc \<Rightarrow> Inr field_desc)"

definition ProtoSetAttr :: "handlers \<Rightarrow> Message \<Rightarrow> string \<Rightarrow> py_object \<Rightarrow> (error + unit) \<times> Message" where
  "ProtoSetAttr h message name val =
     (case GetFieldDescriptor message name of
        Inl e \<Rightarrow> (Inl e, message)
      | Inr field_desc \<Rightarrow>
          if is_map field_desc \<or> is_repeated field_desc \<or> field_type field_desc = TYPE_MESSAGE
          then (Inl (AttributeError (''Assignment not allowed to field '' @ [CHR 0x22] @ name
                       @ [CHR 0x22] @ '' in protocol message object.'')), message)
          else SetProtoSingularField h field_desc message val)"

text \<open>The loop over the keyword arguments, in their order; the first throw ends it.\<close>

fun ProtoInitAttrs :: "handlers \<Rightarrow> Message \<Rightarrow> (string \<times> py_object) list \<Rightarrow> (error + unit) \<times> Message" where
  "ProtoInitAttrs h message [] = (Inr (), message)"
| "ProtoInitAttrs h message ((key, val) # kwargs_in) =
     (case GetFieldDescriptor message key of
        Inl e \<Rightarrow> (Inl e, message)
      | Inr field_desc \<Rightarrow>
          if is_map field_desc then ProtoInitAttrs h message kwargs_in
          else if is_repeated field_desc then
            (case SetProtoRepeatedField h field_desc message val of
               (Inl e, message') \<Rightarrow> (Inl e, message')
             | (Inr u, message') \<Rightarrow> ProtoInitAttrs h message' kwargs_in)
          else
            (case SetProtoSingularField h field_desc message val of
               (Inl e, message') \<Rightarrow> (Inl e, message')
             | (Inr u, message') \<Rightarrow> ProtoInitAttrs h message' kwargs_in))"

text \<open>
  \<open>PyProtoAllocateMessage<proto2::Message>\<close>, bound as \<open>make_wrapped_c_proto\<close>. The
  message is returned only when nothing threw.
\<close>

definition PyProtoAllocateMessage ::
  "handlers \<Rightarrow> proto2 \<Rightarrow> py_object \<Rightarrow> (string \<times> py_object) list \<Rightarrow> error + Message" where
  "PyProtoAllocateMessage h lib py_proto kwargs_in =
     (case (case py_proto of
              PyStr s \<Rightarrow> Inr s
            | _ \<Rightarrow> (case PyProtoFullName py_proto of
                      Inl e \<Rightarrow> Inl e
                    | Inr (Some optional_name) \<Rightarrow> Inr optional_name
                    | Inr None \<Rightarrow> Inl (invalid_argument ''Could not get the name of the proto.'')))
      of
        Inl e \<Rightarrow> Inl e
      | Inr full_type_name \<Rightarrow>
          (case FindMessageTypeByName lib full_type_name of
             None \<Rightarrow> Inl (runtime_error (''Proto Descriptor not found: '' @ full_type_name))
           | Some message_descriptor \<Rightarrow>
               (case GetPrototype lib message_descriptor of
                  None \<Rightarrow> Inl (runtime_error
                      (''Not able to generate prototype for descriptor of: '' @ full_type_name))
                | Some prototype \<Rightarrow>
                    (case ProtoInitAttrs h (New prototype) kwargs_in of
                       (Inl e, message) \<Rightarrow> Inl e
                     | (Inr u, message) \<Rightarrow> Inr message))))"

text \<open>\<open>google.protobuf.Any\<close>, with its two fields.\<close>

record Any =
  type_url :: string
  any_value :: string

definition AnyPackFromPyProto :: "py_object \<Rightarrow> Any \<Rightarrow> (error + bool) \<times> Any" where
  "AnyPackFromPyProto py_proto any_proto =
     (case PyProtoFullName py_proto of
        Inl e \<Rightarrow> (Inl e, any_proto)
      | Inr None \<Rightarrow> (Inr False, any_proto)
      | Inr (Some optional_name) \<Rightarrow>
          (let any1 = any_proto\<lparr>type_url := ''type.googleapis.com/'' @ optional_name\<rparr>
           in case PyProtoSerializeToString py_proto of
                Inl e \<Rightarrow> (Inl e, any1)
              | Inr s \<Rightarrow> (Inr True, any1\<lparr>any_value := s\<rparr>)))"

section \<open>proto\_utils.h: the pickle support\<close>

text \<open>Item access \<open>d[key]\<close> on a host dictionary with a text key.\<close>

definition getitem :: "(py_object \<times> py_object) list \<Rightarrow> string \<Rightarrow> error + py_object" where
  "getitem d key = (case map_of d (PyStr key) of None \<Rightarrow> Inl (key_error key) | Some v \<Rightarrow> Inr v)"

text \<open>The first function of \<open>MakePickler\<close>: the state that is pickled.\<close>

definition MakePickler_getstate :: "proto2 \<Rightarrow> Message \<Rightarrow> py_object" where
  "MakePickler_getstate lib message =
     PyDict [(PyStr ''serialized'', PyBytes (SerializeAsString lib message)),
             (PyStr ''type_name'', PyStr (GetTypeName message))]"

text \<open>
  The second function of \<open>MakePickler\<close>, for the base message class (proto.cc binds
  \<open>MakePickler<proto2::Message>\<close>): allocate by \<open>d["type_name"]\<close> without keyword
  arguments, parse \<open>d["serialized"]\<close> into the message, drop the flag that
  \<open>ParseFromString\<close> returns, and return the message.
\<close>

definition MakePickler_setstate :: "handlers \<Rightarrow> proto2 \<Rightarrow> py_object \<Rightarrow> error + Message" where
  "MakePickler_setstate h lib state =
     (case state of
        PyDict d \<Rightarrow>
          (case getitem d ''type_name'' of
             Inl e \<Rightarrow> Inl e
           | Inr type_name \<Rightarrow>
               (case PyProtoAllocateMessage h lib type_name [] of
                  Inl e \<Rightarrow> Inl e
                | Inr message \<Rightarrow>
                    (case getitem d ''serialized'' of
                       Inl e \<Rightarrow> Inl e
                     | Inr serialized \<Rightarrow>
                         (case cast_bytes serialized of
                            Inl e \<Rightarrow> Inl e
                          | Inr data \<Rightarrow> Inr (snd (ParseFromString lib message data))))))
      | _ \<Rightarrow> Inl (type_error ''incompatible function arguments''))"

section \<open>proto.cc: the bindings\<close>

text \<open>
  The element types over which \<open>BindEachFieldType\<close> instantiates a bindings class,
  named by the suffix it gives each of them.
\<close>

datatype element_type =
    ElemInt32 | ElemInt64 | ElemUInt32 | ElemUInt64 | ElemFloat | ElemDouble | ElemBool
  | ElemString | ElemMessage | ElemEnum

text \<open>Loading a host object into an \<open>int\<close> parameter of a bound function.\<close>

fun load_int :: "py_object \<Rightarrow> error + 32 word" where
  "load_int (PyInt i) =
     (if - (2 ^ 31) \<le> i \<and> i < 2 ^ 31 then Inr (word_of_int i)
      else Inl (type_error ''incompatible function arguments''))"
| "load_int (PyBool b) = Inr (if b then 1 else 0)"
| "load_int _ = Inl (type_error ''incompatible function arguments'')"

text \<open>
  The \<open>__setitem__\<close> that \<open>MapFieldBindings<T>\<close> installs. For the message element type
  it is the lambda \<open>[](void*, int, handle)\<close> that throws; for every other element type
  it is the container's own \<open>SetItem\<close>, which is declared outside the source files and
  is a parameter here. The container is returned as the call left it.
\<close>

definition MapFieldBindings_setitem ::
  "element_type \<Rightarrow> ('c \<Rightarrow> py_object \<Rightarrow> py_object \<Rightarrow> (error + unit) \<times> 'c)
     \<Rightarrow> 'c \<Rightarrow> py_object \<Rightarrow> py_object \<Rightarrow> (error + unit) \<times> 'c" where
  "MapFieldBindings_setitem T SetItem self key val =
     (if T = ElemMessage then
        (case load_int key of
           Inl e \<Rightarrow> (Inl e, self)
         | Inr k \<Rightarrow> (Inl (value_error ''Cannot assign to message in a map field.''), self))
      else SetItem self key val)"

text \<open>
  An instance of a bound class with \<open>dynamic_attr()\<close>: the C++ object it wraps and its
  attribute dictionary, which maps a name to the address of a host object. The heap
  holds the host objects by address and counts the generator invocations.
\<close>

record 'c py_instance =
  cpp_self :: 'c
  inst_dict :: "(string \<times> nat) list"

record py_heap =
  objects :: "py_object list"
  generator_calls :: nat

definition inst_hasattr :: "'c py_instance \<Rightarrow> string \<Rightarrow> bool" where
  "inst_hasattr pyinst attr = (map_of (inst_dict pyinst) attr \<noteq> None)"

definition inst_setattr :: "'c py_instance \<Rightarrow> string \<Rightarrow> nat \<Rightarrow> 'c py_instance" where
  "inst_setattr pyinst attr addr =
     pyinst\<lparr>inst_dict := (attr, addr) # filter (\<lambda>kv. fst kv \<noteq> attr) (inst_dict pyinst)\<rparr>"

definition inst_getattr :: "'c py_instance \<Rightarrow> string \<Rightarrow> error + nat" where
  "inst_getattr pyinst attr =
     (case map_of (inst_dict pyinst) attr of None \<Rightarrow> Inl (AttributeError attr) | Some a \<Rightarrow> Inr a)"

text \<open>
  The getter that \<open>DefConstantProperty\<close> installs under \<open>name\<close>. Casting the
  generator's result makes a new host object, at the next free address.
\<close>

definition DefConstantProperty_wrapper ::
  "('c \<Rightarrow> py_object) \<Rightarrow> string \<Rightarrow> 'c py_instance \<times> py_heap
     \<Rightarrow> (error + nat) \<times> ('c py_instance \<times> py_heap)" where
  "DefConstantProperty_wrapper generator name st =
     (let pyinst = fst st; heap = snd st;
          cache_name = ''_cache_'' @ name;
          st' = (if \<not> inst_hasattr pyinst cache_name then
                   (let result = generator (cpp_self pyinst);
                        addr = length (objects heap)
                    in (inst_setattr pyinst cache_name addr,
                        heap\<lparr>objects := objects heap @ [result],
                             generator_calls := generator_calls heap + 1\<rparr>))
                 else st)
      in (inst_getattr (fst st') cache_name, st'))"

text \<open>Reading the property \<open>n\<close> times in a row, collecting what each read returns.\<close>

fun accesses ::
  "('c \<Rightarrow> py_object) \<Rightarrow> string \<Rightarrow> nat \<Rightarrow> 'c py_instance \<times> py_heap
     \<Rightarrow> (error + nat) list \<times> ('c py_instance \<times> py_heap)" where
  "accesses generator name 0 st = ([], st)"
| "accesses generator name (Suc n) st =
     (let r = DefConstantProperty_wrapper generator name st;
          rest = accesses generator name n (snd r)
      in (fst r # fst rest, snd rest))"

text \<open>
  The two read-only properties that the base message class \<open>ProtoMessage\<close> defines
  first: \<open>DESCRIPTOR\<close> (shown with the \<open>full_name\<close> that the bridge reads from it) and the
  marker.
\<close>

definition ProtoMessage_properties :: "Message \<Rightarrow> (string \<times> py_object) list" where
  "ProtoMessage_properties message =
     [(''DESCRIPTOR'', PyInstance [(''full_name'', PyStr (full_name (GetDescriptor message)))]),
      (kIsWrappedCProtoAttr, PyBool True)]"

text \<open>The \<open>Pack\<close> method bound on \<open>Any\<close>.\<close>

definition Any_Pack :: "Any \<Rightarrow> py_object \<Rightarrow> (error + unit) \<times> Any" where
  "Any_Pack self py_proto =
     (case AnyPackFromPyProto py_proto self of
        (Inl e, self') \<Rightarrow> (Inl e, self')
      | (Inr ok, self') \<Rightarrow>
          if \<not> ok then (Inl (invalid_argument ''Failed to pack Any proto.''), self')
          else (Inr (), self'))"

section \<open>A message type and a library instance to run the bridge on\<close>

text \<open>
  The message type \<open>Pair { int32 a; string b; repeated int32 xs; map<string,int32> m; }\<close>
  and a proto2 message type with one group field.
\<close>

definition Pair :: Descriptor where
  "Pair = \<lparr>full_name = ''pkg.Pair'', field_descs =
     [\<lparr>field_name = ''a'', field_type = TYPE_INT32, is_map = False, is_repeated = False\<rparr>,
      \<lparr>field_name = ''b'', field_type = TYPE_STRING, is_map = False, is_repeated = False\<rparr>,
      \<lparr>field_name = ''xs'', field_type = TYPE_INT32, is_map = False, is_repeated = True\<rparr>,
      \<lparr>field_name = ''m'', field_type = TYPE_MESSAGE, is_map = True, is_repeated = True\<rparr>]\<rparr>"

definition Legacy :: Descriptor where
  "Legacy = \<lparr>full_name = ''pkg.Legacy'', field_descs =
     [\<lparr>field_name = ''g'', field_type = TYPE_GROUP, is_map = False, is_repeated = False\<rparr>]\<rparr>"

text \<open>Handlers that store the given object under the field's name.\<close>

definition store_field :: handler where
  "store_field field_desc message val =
     (Inr (), message\<lparr>field_values :=
        (field_name field_desc, val) # filter (\<lambda>kv. fst kv \<noteq> field_name field_desc) (field_values message)\<rparr>)"

definition store_handlers :: handlers where
  "store_handlers = \<lparr>SetProtoSingularField = store_field, SetProtoRepeatedField = store_field\<rparr>"

text \<open>
  A library instance with both types registered and a codec that carries the text field
  \<open>b\<close> alone; a byte \<open>0xFF\<close> makes the parse fail after the bytes before it were taken.
\<close>

definition toy_serialize :: "Message \<Rightarrow> string" where
  "toy_serialize message =
     (case map_of (field_values message) ''b'' of Some (PyStr s) \<Rightarrow> s | _ \<Rightarrow> [])"

definition toy_parse :: "Message \<Rightarrow> string \<Rightarrow> bool \<times> Message" where
  "toy_parse message data =
     (CHR 0xFF \<notin> set data,
      message\<lparr>field_values := [(''b'', PyStr (takeWhile (\<lambda>c. c \<noteq> CHR 0xFF) data))]\<rparr>)"

definition toy_lib :: proto2 where
  "toy_lib = \<lparr>generated_pool = [Pair, Legacy],
              GetPrototype = (\<lambda>d. Some \<lparr>descriptor = d, field_values = []\<rparr>),
              SerializeAsString = toy_serialize,
              ParseFromString = toy_parse\<rparr>"

section \<open>Properties\<close>

subsection \<open>The index check\<close>

text \<open>
  The check of the source, run against the container's own size (a negative
  \<open>allowed_size\<close>), passes exactly for the indices in \<open>[0, n)\<close> and throws the
  out-of-range error, reporting the index and \<open>n - 1\<close>, for every other index.
\<close>

lemma CheckIndex_range:
  assumes "sint a < 0"
  shows "(0 \<le> sint idx \<and> sint idx < sint n \<longrightarrow> CheckIndex n idx a = Inr ())
       \<and> (\<not> (0 \<le> sint idx \<and> sint idx < sint n)
            \<longrightarrow> CheckIndex n idx a = Inl (out_of_range idx (n - 1)))"
  using assms by (auto simp: CheckIndex_def)

text \<open>Adding a negative index to a length stays within the 32-bit range.\<close>

lemma sint_wrap:
  fixes n idx :: "32 word"
  assumes "0 \<le> sint n" and "sint idx < 0"
  shows "sint (n + idx) = sint n + sint idx"
proof -
  have "- (2 ^ 31) \<le> sint idx" "sint n < 2 ^ 31"
    using sint_ge [of idx] sint_lt [of n] by simp_all
  with assms have "- (2 ^ 31) \<le> sint n + sint idx" "sint n + sint idx < 2 ^ 31"
    by simp_all
  then show ?thesis
    by (simp add: sint_word_add signed_take_bit_int_eq_self)
qed

text \<open>
  C3. On a repeated field of length \<open>n\<close>, an index operation with an index in \<open>[-n, n)\<close>
  succeeds, at position \<open>n + idx\<close> for a negative index and at \<open>idx\<close> otherwise; an
  index outside \<open>[-n, n)\<close> raises the out-of-range error of the index check.
\<close>

theorem GetItem_index_range:
  assumes "0 \<le> sint n"
  shows "(- sint n \<le> sint idx \<and> sint idx < sint n \<longrightarrow>
           (\<exists>p. GetItem_index n idx = Inr p
              \<and> sint p = (if sint idx < 0 then sint n + sint idx else sint idx)))
       \<and> (\<not> (- sint n \<le> sint idx \<and> sint idx < sint n) \<longrightarrow>
           (\<exists>i. GetItem_index n idx = Inl (out_of_range i (n - 1))))"
proof (cases "sint idx < 0")
  case True
  with assms have "sint (n + idx) = sint n + sint idx" by (rule sint_wrap)
  with True show ?thesis by (auto simp: GetItem_index_def CheckIndex_def)
next
  case False
  with assms show ?thesis by (auto simp: GetItem_index_def CheckIndex_def)
qed

theorem GetItem_index_range_witness:
  "0 \<le> sint (3 :: 32 word)
   \<and> (\<exists>p. GetItem_index 3 (- 1) = Inr p \<and> sint p = 2)
   \<and> (\<exists>p. GetItem_index 3 (- 3) = Inr p \<and> sint p = 0)
   \<and> (\<exists>p. GetItem_index 3 2 = Inr p \<and> sint p = 2)
   \<and> (\<exists>i. GetItem_index 3 (- 4) = Inl (out_of_range i 2))
   \<and> (\<exists>i. GetItem_index 3 3 = Inl (out_of_range i 2))"
proof -
  have len: "0 \<le> sint (3 :: 32 word)" by simp
  note range = GetItem_index_range [OF len]
  have "\<exists>p. GetItem_index 3 (- 1) = Inr p \<and> sint p = 2"
    using range [of "- 1"] by simp
  moreover have "\<exists>p. GetItem_index 3 (- 3) = Inr p \<and> sint p = 0"
    using range [of "- 3"] by simp
  moreover have "\<exists>p. GetItem_index 3 2 = Inr p \<and> sint p = 2"
    using range [of 2] by simp
  moreover have "\<exists>i. GetItem_index 3 (- 4) = Inl (out_of_range i 2)"
    using range [of "- 4"] by simp
  moreover have "\<exists>i. GetItem_index 3 3 = Inl (out_of_range i 2)"
    using range [of 3] by simp
  ultimately show ?thesis using len by simp
qed

subsection \<open>Keyword initialisation\<close>

text \<open>
  C1. The specification has every keyword that names a map field bulk-update that field
  with the given mapping. The code does not: \<open>ProtoInitAttrs\<close> passes over a keyword whose
  field is a map, whatever the handlers are, and goes on with the remaining keywords on
  the message as it was.
\<close>

theorem ProtoInitAttrs_skips_map:
  assumes "GetFieldDescriptor message key = Inr field_desc" and "is_map field_desc"
  shows "ProtoInitAttrs h message ((key, val) # kwargs_in) = ProtoInitAttrs h message kwargs_in"
  using assms by simp

theorem ProtoInitAttrs_skips_map_witness:
  "ProtoInitAttrs store_handlers (New \<lparr>descriptor = Pair, field_values = []\<rparr>)
     [(''m'', PyDict [(PyStr ''k'', PyInt 9)])]
   = (Inr (), \<lparr>descriptor = Pair, field_values = []\<rparr>)
   \<and> PyProtoAllocateMessage store_handlers toy_lib (PyStr ''pkg.Pair'')
       [(''m'', PyDict [(PyStr ''k'', PyInt 9)])]
     = Inr \<lparr>descriptor = Pair, field_values = []\<rparr>"
proof -
  let ?m = "\<lparr>field_name = ''m'', field_type = TYPE_MESSAGE, is_map = True, is_repeated = True\<rparr>"
  have found: "GetFieldDescriptor (New \<lparr>descriptor = Pair, field_values = []\<rparr>) ''m'' = Inr ?m"
    by (simp add: GetFieldDescriptor_def FindFieldByName_def GetDescriptor_def New_def Pair_def)
  have "is_map ?m" by simp
  from ProtoInitAttrs_skips_map [OF found this, of store_handlers "PyDict [(PyStr ''k'', PyInt 9)]" "[]"]
  have init: "ProtoInitAttrs store_handlers (New \<lparr>descriptor = Pair, field_values = []\<rparr>)
      [(''m'', PyDict [(PyStr ''k'', PyInt 9)])] = (Inr (), \<lparr>descriptor = Pair, field_values = []\<rparr>)"
    by (simp add: New_def)
  have pool: "FindMessageTypeByName toy_lib ''pkg.Pair'' = Some Pair"
    by (simp add: FindMessageTypeByName_def toy_lib_def Pair_def)
  have factory: "GetPrototype toy_lib Pair = Some \<lparr>descriptor = Pair, field_values = []\<rparr>"
    by (simp add: toy_lib_def)
  have "PyProtoAllocateMessage store_handlers toy_lib (PyStr ''pkg.Pair'')
      [(''m'', PyDict [(PyStr ''k'', PyInt 9)])] = Inr \<lparr>descriptor = Pair, field_values = []\<rparr>"
    unfolding PyProtoAllocateMessage_def by (simp add: pool factory init del: ProtoInitAttrs.simps)
  with init show ?thesis by (rule conjI)
qed

subsection \<open>Attribute assignment\<close>

text \<open>
  For a field that is a map, is repeated or has type \<open>TYPE_MESSAGE\<close>, assignment throws
  the attribute error and the message stays as it was.
\<close>

lemma ProtoSetAttr_rejects:
  assumes "FindFieldByName (GetDescriptor message) name = Some field_desc"
    and "is_map field_desc \<or> is_repeated field_desc \<or> field_type field_desc = TYPE_MESSAGE"
  shows "\<exists>msg. ProtoSetAttr h message name val = (Inl (AttributeError msg), message)"
  using assms by (auto simp add: ProtoSetAttr_def GetFieldDescriptor_def)

text \<open>
  Every other field that the message type has is handed to the singular set handler.
\<close>

lemma ProtoSetAttr_dispatches:
  assumes "FindFieldByName (GetDescriptor message) name = Some field_desc"
    and "\<not> is_map field_desc" and "\<not> is_repeated field_desc"
    and "field_type field_desc \<noteq> TYPE_MESSAGE"
  shows "ProtoSetAttr h message name val = SetProtoSingularField h field_desc message val"
  using assms by (simp add: ProtoSetAttr_def GetFieldDescriptor_def)

text \<open>
  C2. The specification has assignment to a singular group field rejected like
  assignment to a singular message field. The code does not: the test of
  \<open>ProtoSetAttr\<close> compares the field's type with \<open>TYPE_MESSAGE\<close> only, so a singular field
  of type \<open>TYPE_GROUP\<close> is handed to the singular set handler, as a scalar field is.
\<close>

theorem ProtoSetAttr_group_dispatches:
  assumes "FindFieldByName (GetDescriptor message) name = Some field_desc"
    and "field_type field_desc = TYPE_GROUP"
    and "\<not> is_map field_desc" and "\<not> is_repeated field_desc"
  shows "ProtoSetAttr h message name val = SetProtoSingularField h field_desc message val"
  using assms by (simp add: ProtoSetAttr_def GetFieldDescriptor_def)

theorem ProtoSetAttr_group_dispatches_witness:
  "ProtoSetAttr store_handlers \<lparr>descriptor = Legacy, field_values = []\<rparr> ''g'' (PyInt 1)
   = (Inr (), \<lparr>descriptor = Legacy, field_values = [(''g'', PyInt 1)]\<rparr>)"
proof -
  let ?g = "\<lparr>field_name = ''g'', field_type = TYPE_GROUP, is_map = False, is_repeated = False\<rparr>"
  let ?msg = "\<lparr>descriptor = Legacy, field_values = []\<rparr>"
  have found: "FindFieldByName (GetDescriptor ?msg) ''g'' = Some ?g"
    by (simp add: FindFieldByName_def GetDescriptor_def Legacy_def)
  have "ProtoSetAttr store_handlers ?msg ''g'' (PyInt 1)
          = SetProtoSingularField store_handlers ?g ?msg (PyInt 1)"
    by (rule ProtoSetAttr_group_dispatches [OF found]) simp_all
  then show ?thesis by (simp add: store_handlers_def store_field_def)
qed

subsection \<open>Keyed assignment on map fields\<close>

text \<open>
  C4. On a map field whose values are messages, keyed assignment throws for every key
  and every value (the value error, or the argument error when the key does not load as
  an \<open>int\<close>) and the container stays as it was; for every other element type keyed
  assignment is the container's \<open>SetItem\<close>.
\<close>

theorem MapFieldBindings_setitem_cases:
  "(\<exists>e. MapFieldBindings_setitem ElemMessage SetItem self key val = (Inl e, self))
   \<and> (T \<noteq> ElemMessage \<longrightarrow>
        MapFieldBindings_setitem T SetItem self key val = SetItem self key val)"
  by (cases "load_int key") (simp_all add: MapFieldBindings_setitem_def)

theorem MapFieldBindings_setitem_cases_witness:
  "ElemInt32 \<noteq> ElemMessage
   \<and> MapFieldBindings_setitem ElemInt32 (\<lambda>c k v. (Inr (), (k, v) # c)) [] (PyStr ''k'') (PyInt 9)
       = (Inr (), [(PyStr ''k'', PyInt 9)])
   \<and> (\<exists>e. MapFieldBindings_setitem ElemMessage (\<lambda>c k v. (Inr (), (k, v) # c)) []
             (PyStr ''k'') (PyInt 9) = (Inl e, []))"
  using MapFieldBindings_setitem_cases
    [of "\<lambda>c k v. (Inr (), (k, v) # c)" "[]" "PyStr ''k''" "PyInt 9" ElemInt32]
  by simp

subsection \<open>Allocation by type\<close>

text \<open>
  C5. Given a name string that the descriptor pool does not hold, the allocation throws
  the error that the descriptor was not found; given an object that is not a string and
  does not expose \<open>DESCRIPTOR.full_name\<close>, it throws the invalid-argument error. Neither
  call returns a message.
\<close>

theorem PyProtoAllocateMessage_errors:
  "(FindMessageTypeByName lib type_name = None \<longrightarrow>
      PyProtoAllocateMessage h lib (PyStr type_name) kwargs_in
        = Inl (runtime_error (''Proto Descriptor not found: '' @ type_name)))
 \<and> (\<not> isinstance_str py_proto
      \<and> (case getattr py_proto ''DESCRIPTOR'' of
            None \<Rightarrow> True | Some d \<Rightarrow> \<not> hasattr d ''full_name'') \<longrightarrow>
      PyProtoAllocateMessage h lib py_proto kwargs_in
        = Inl (invalid_argument ''Could not get the name of the proto.''))"
  by (cases py_proto)
     (auto simp: PyProtoAllocateMessage_def PyProtoFullName_def hasattr_def split: option.splits)

theorem PyProtoAllocateMessage_errors_witness:
  "FindMessageTypeByName toy_lib ''pkg.DoesNotExist'' = None
   \<and> PyProtoAllocateMessage store_handlers toy_lib (PyStr ''pkg.DoesNotExist'') []
        = Inl (runtime_error ''Proto Descriptor not found: pkg.DoesNotExist'')
   \<and> PyProtoAllocateMessage store_handlers toy_lib (PyInt 7) []
        = Inl (invalid_argument ''Could not get the name of the proto.'')
   \<and> PyProtoAllocateMessage store_handlers toy_lib (PyInstance [(''DESCRIPTOR'', PyNone)]) []
        = Inl (invalid_argument ''Could not get the name of the proto.'')"
proof -
  have absent: "FindMessageTypeByName toy_lib ''pkg.DoesNotExist'' = None"
    by (simp add: FindMessageTypeByName_def toy_lib_def Pair_def Legacy_def)
  have "PyProtoAllocateMessage store_handlers toy_lib (PyStr ''pkg.DoesNotExist'') []
          = Inl (runtime_error ''Proto Descriptor not found: pkg.DoesNotExist'')"
    using PyProtoAllocateMessage_errors
      [of toy_lib "''pkg.DoesNotExist''" store_handlers "[]" "PyInt 7"] absent
    by simp
  moreover have "PyProtoAllocateMessage store_handlers toy_lib (PyInt 7) []
          = Inl (invalid_argument ''Could not get the name of the proto.'')"
    using PyProtoAllocateMessage_errors
      [of toy_lib "''pkg.DoesNotExist''" store_handlers "[]" "PyInt 7"]
    by simp
  moreover have "PyProtoAllocateMessage store_handlers toy_lib
                   (PyInstance [(''DESCRIPTOR'', PyNone)]) []
          = Inl (invalid_argument ''Could not get the name of the proto.'')"
    using PyProtoAllocateMessage_errors
      [of toy_lib "''pkg.DoesNotExist''" store_handlers "[]" "PyInstance [(''DESCRIPTOR'', PyNone)]"]
    by (simp add: hasattr_def)
  ultimately show ?thesis using absent by simp
qed

subsection \<open>Pickling\<close>

lemma PyProtoAllocateMessage_by_name:
  assumes "FindMessageTypeByName lib type_name = Some d" and "GetPrototype lib d = Some prototype"
  shows "PyProtoAllocateMessage h lib (PyStr type_name) [] = Inr (New prototype)"
  using assms by (simp add: PyProtoAllocateMessage_def)

lemma toy_lib_Pair:
  "FindMessageTypeByName toy_lib ''pkg.Pair'' = Some Pair"
  "GetPrototype toy_lib Pair = Some \<lparr>descriptor = Pair, field_values = []\<rparr>"
  by (simp_all add: FindMessageTypeByName_def toy_lib_def Pair_def)

text \<open>
  C6. The pickled state of a message \<open>w\<close> is the two-entry dictionary of its serialized
  bytes under \<open>serialized\<close> and its full type name under \<open>type_name\<close>. When the library
  resolves that name to a prototype and its codec reads the bytes of \<open>w\<close> back into a
  fresh message of that type with the same bytes, unpickling the state returns a message
  whose serialized bytes are those of \<open>w\<close>.
\<close>

theorem MakePickler_roundtrip:
  assumes "FindMessageTypeByName lib (GetTypeName w) = Some d"
    and "GetPrototype lib d = Some prototype"
    and "SerializeAsString lib (snd (ParseFromString lib (New prototype) (SerializeAsString lib w)))
           = SerializeAsString lib w"
  shows "MakePickler_getstate lib w
           = PyDict [(PyStr ''serialized'', PyBytes (SerializeAsString lib w)),
                     (PyStr ''type_name'', PyStr (GetTypeName w))]
       \<and> (\<exists>m. MakePickler_setstate h lib (MakePickler_getstate lib w) = Inr m
              \<and> SerializeAsString lib m = SerializeAsString lib w)"
  using assms
  by (simp add: MakePickler_getstate_def MakePickler_setstate_def getitem_def
      PyProtoAllocateMessage_by_name)

theorem MakePickler_roundtrip_witness:
  "MakePickler_getstate toy_lib \<lparr>descriptor = Pair, field_values = [(''b'', PyStr ''hi'')]\<rparr>
     = PyDict [(PyStr ''serialized'', PyBytes ''hi''), (PyStr ''type_name'', PyStr ''pkg.Pair'')]
   \<and> (\<exists>m. MakePickler_setstate store_handlers toy_lib
             (MakePickler_getstate toy_lib
                \<lparr>descriptor = Pair, field_values = [(''b'', PyStr ''hi'')]\<rparr>) = Inr m
          \<and> SerializeAsString toy_lib m = ''hi'')"
proof -
  let ?w = "\<lparr>descriptor = Pair, field_values = [(''b'', PyStr ''hi'')]\<rparr>"
  have name: "GetTypeName ?w = ''pkg.Pair''"
    by (simp add: GetTypeName_def Pair_def)
  have ser: "SerializeAsString toy_lib ?w = ''hi''"
    by (simp add: toy_lib_def toy_serialize_def)
  have found: "FindMessageTypeByName toy_lib (GetTypeName ?w) = Some Pair"
    by (simp add: name toy_lib_Pair)
  have codec: "SerializeAsString toy_lib
                 (snd (ParseFromString toy_lib (New \<lparr>descriptor = Pair, field_values = []\<rparr>)
                         (SerializeAsString toy_lib ?w)))
               = SerializeAsString toy_lib ?w"
    by (simp add: toy_lib_def toy_serialize_def toy_parse_def New_def)
  note roundtrip = MakePickler_roundtrip [OF found toy_lib_Pair(2) codec, of store_handlers]
  from roundtrip have state: "MakePickler_getstate toy_lib ?w
      = PyDict [(PyStr ''serialized'', PyBytes ''hi''), (PyStr ''type_name'', PyStr ''pkg.Pair'')]"
    by (simp add: name ser)
  from roundtrip obtain m where
    "MakePickler_setstate store_handlers toy_lib (MakePickler_getstate toy_lib ?w) = Inr m"
    and "SerializeAsString toy_lib m = SerializeAsString toy_lib ?w"
    by blast
  then have "\<exists>m. MakePickler_setstate store_handlers toy_lib (MakePickler_getstate toy_lib ?w) = Inr m
               \<and> SerializeAsString toy_lib m = ''hi''"
    by (simp add: ser)
  with state show ?thesis by (rule conjI)
qed

text \<open>
  C9. When the pickled state names a type that the library resolves and its
  \<open>serialized\<close> bytes fail to parse, the unpickler throws nothing: it returns the freshly
  allocated message in the state in which the failed parse left it.
\<close>

theorem MakePickler_setstate_parse_failure:
  assumes "getitem d ''type_name'' = Inr (PyStr type_name)"
    and "FindMessageTypeByName lib type_name = Some desc"
    and "GetPrototype lib desc = Some prototype"
    and "getitem d ''serialized'' = Inr (PyBytes data)"
    and "\<not> fst (ParseFromString lib (New prototype) data)"
  shows "MakePickler_setstate h lib (PyDict d)
           = Inr (snd (ParseFromString lib (New prototype) data))"
  using assms by (simp add: MakePickler_setstate_def PyProtoAllocateMessage_by_name)

theorem MakePickler_setstate_parse_failure_witness:
  "\<not> fst (ParseFromString toy_lib (New \<lparr>descriptor = Pair, field_values = []\<rparr>)
             [CHR ''a'', CHR ''b'', CHR 0xFF, CHR ''c''])
   \<and> MakePickler_setstate store_handlers toy_lib
        (PyDict [(PyStr ''serialized'', PyBytes [CHR ''a'', CHR ''b'', CHR 0xFF, CHR ''c'']),
                 (PyStr ''type_name'', PyStr ''pkg.Pair'')])
      = Inr \<lparr>descriptor = Pair, field_values = [(''b'', PyStr ''ab'')]\<rparr>"
proof -
  let ?data = "[CHR ''a'', CHR ''b'', CHR 0xFF, CHR ''c'']"
  let ?d = "[(PyStr ''serialized'', PyBytes ?data), (PyStr ''type_name'', PyStr ''pkg.Pair'')]"
  have tn: "getitem ?d ''type_name'' = Inr (PyStr ''pkg.Pair'')"
    by (simp add: getitem_def)
  have sd: "getitem ?d ''serialized'' = Inr (PyBytes ?data)"
    by (simp add: getitem_def)
  have fails: "\<not> fst (ParseFromString toy_lib (New \<lparr>descriptor = Pair, field_values = []\<rparr>) ?data)"
    by (simp add: toy_lib_def toy_parse_def)
  from MakePickler_setstate_parse_failure [OF tn toy_lib_Pair sd fails, of store_handlers] fails
  show ?thesis by (simp add: toy_lib_def toy_parse_def New_def)
qed

subsection \<open>Packing an \<open>Any\<close>\<close>

text \<open>
  C7. For an argument that exposes \<open>DESCRIPTOR.full_name\<close> and a \<open>SerializeToString\<close>
  that returns its bytes, \<open>Pack\<close> sets the type URL to \<open>type.googleapis.com/\<close> followed by
  the full name and the value to those bytes. For an argument without such a descriptor
  \<open>Pack\<close> throws the invalid-argument error and the \<open>Any\<close> stays as it was.
\<close>

theorem Any_Pack_cases:
  "(getattr py_proto ''DESCRIPTOR'' = Some d \<and> getattr d ''full_name'' = Some fn
      \<and> cast_string fn = Inr n
      \<and> getattr py_proto ''SerializeToString'' = Some f \<and> call0 f = Inr r
      \<and> cast_string r = Inr bs \<longrightarrow>
      Any_Pack self py_proto
        = (Inr (), self\<lparr>type_url := ''type.googleapis.com/'' @ n, any_value := bs\<rparr>))
 \<and> ((case getattr py_proto ''DESCRIPTOR'' of
         None \<Rightarrow> True | Some d \<Rightarrow> \<not> hasattr d ''full_name'') \<longrightarrow>
      Any_Pack self py_proto = (Inl (invalid_argument ''Failed to pack Any proto.''), self))"
  by (auto simp: Any_Pack_def AnyPackFromPyProto_def PyProtoFullName_def
      PyProtoSerializeToString_def hasattr_def split: option.splits)

theorem Any_Pack_cases_witness:
  "Any_Pack \<lparr>type_url = [], any_value = []\<rparr>
     (PyInstance [(''DESCRIPTOR'', PyInstance [(''full_name'', PyStr ''pkg.Pair'')]),
                  (''SerializeToString'', PyMethod (PyBytes ''hi''))])
     = (Inr (), \<lparr>type_url = ''type.googleapis.com/pkg.Pair'', any_value = ''hi''\<rparr>)
   \<and> Any_Pack \<lparr>type_url = ''u'', any_value = ''v''\<rparr> (PyInt 7)
     = (Inl (invalid_argument ''Failed to pack Any proto.''), \<lparr>type_url = ''u'', any_value = ''v''\<rparr>)"
proof -
  let ?p = "PyInstance [(''DESCRIPTOR'', PyInstance [(''full_name'', PyStr ''pkg.Pair'')]),
                        (''SerializeToString'', PyMethod (PyBytes ''hi''))]"
  have "Any_Pack \<lparr>type_url = [], any_value = []\<rparr> ?p
          = (Inr (), \<lparr>type_url = ''type.googleapis.com/pkg.Pair'', any_value = ''hi''\<rparr>)"
    using Any_Pack_cases [of ?p "PyInstance [(''full_name'', PyStr ''pkg.Pair'')]"
        "PyStr ''pkg.Pair''" "''pkg.Pair''" "PyMethod (PyBytes ''hi'')" "PyBytes ''hi''" "''hi''"
        "\<lparr>type_url = [], any_value = []\<rparr>"]
    by simp
  moreover have "Any_Pack \<lparr>type_url = ''u'', any_value = ''v''\<rparr> (PyInt 7)
          = (Inl (invalid_argument ''Failed to pack Any proto.''),
             \<lparr>type_url = ''u'', any_value = ''v''\<rparr>)"
    using Any_Pack_cases [of "PyInt 7" PyNone PyNone "[]" PyNone PyNone "[]"
        "\<lparr>type_url = ''u'', any_value = ''v''\<rparr>"]
    by simp
  ultimately show ?thesis by simp
qed

subsection \<open>Lazy descriptor properties\<close>

lemma wrapper_cached:
  assumes "map_of (inst_dict (fst st)) (''_cache_'' @ name) = Some a"
  shows "DefConstantProperty_wrapper generator name st = (Inr a, st)"
  using assms by (simp add: DefConstantProperty_wrapper_def inst_hasattr_def inst_getattr_def)

lemma wrapper_first:
  assumes "map_of (inst_dict (fst st)) (''_cache_'' @ name) = None"
  shows "DefConstantProperty_wrapper generator name st
           = (Inr (length (objects (snd st))),
              (inst_setattr (fst st) (''_cache_'' @ name) (length (objects (snd st))),
               (snd st)\<lparr>objects := objects (snd st) @ [generator (cpp_self (fst st))],
                         generator_calls := generator_calls (snd st) + 1\<rparr>))"
  using assms
  by (simp add: DefConstantProperty_wrapper_def inst_hasattr_def inst_getattr_def
      inst_setattr_def Let_def)

lemma accesses_cached:
  assumes "map_of (inst_dict (fst st)) (''_cache_'' @ name) = Some a"
  shows "accesses generator name n st = (replicate n (Inr a), st)"
  using assms by (induction n) (simp_all add: wrapper_cached)

text \<open>
  C8. Reading a lazy property of one instance any number of times in a row returns the
  same object address every time and invokes the generator at most once. When the
  instance has no cache attribute yet, the first read invokes the generator exactly
  once and the address returned by every read holds the generator's result.
\<close>

theorem DefConstantProperty_generator_once:
  "\<exists>a. fst (accesses generator name n st) = replicate n (Inr a)
      \<and> generator_calls (snd (snd (accesses generator name n st)))
          \<le> generator_calls (snd st) + 1
      \<and> (0 < n \<and> \<not> inst_hasattr (fst st) (''_cache_'' @ name) \<longrightarrow>
           generator_calls (snd (snd (accesses generator name n st)))
             = generator_calls (snd st) + 1
           \<and> objects (snd (snd (accesses generator name n st))) ! a
             = generator (cpp_self (fst st)))"
proof (cases "map_of (inst_dict (fst st)) (''_cache_'' @ name)")
  case (Some a)
  then show ?thesis by (auto simp: accesses_cached inst_hasattr_def)
next
  case None
  show ?thesis
  proof (cases n)
    case 0
    then show ?thesis by simp
  next
    case (Suc k)
    let ?a = "length (objects (snd st))"
    let ?st' = "snd (DefConstantProperty_wrapper generator name st)"
    have cached: "map_of (inst_dict (fst ?st')) (''_cache_'' @ name) = Some ?a"
      using None by (simp add: wrapper_first inst_setattr_def)
    have calls: "generator_calls (snd ?st') = generator_calls (snd st) + 1"
      using None by (simp add: wrapper_first)
    have stored: "objects (snd ?st') ! ?a = generator (cpp_self (fst st))"
      using None by (simp add: wrapper_first)
    have first: "fst (DefConstantProperty_wrapper generator name st) = Inr ?a"
      using None by (simp add: wrapper_first)
    show ?thesis
      using Suc first calls stored accesses_cached [OF cached, of generator k]
      by (intro exI [of _ ?a]) (simp add: Let_def)
  qed
qed

theorem DefConstantProperty_generator_once_witness:
  "accesses (\<lambda>d. PyList (map (\<lambda>f. PyStr (field_name f)) (field_descs d))) ''fields_by_name''
     (Suc (Suc (Suc 0))) (\<lparr>cpp_self = Pair, inst_dict = []\<rparr>, \<lparr>objects = [], generator_calls = 0\<rparr>)
   = ([Inr 0, Inr 0, Inr 0],
      (\<lparr>cpp_self = Pair, inst_dict = [(''_cache_fields_by_name'', 0)]\<rparr>,
       \<lparr>objects = [PyList [PyStr ''a'', PyStr ''b'', PyStr ''xs'', PyStr ''m'']],
        generator_calls = 1\<rparr>))
   \<and> (\<exists>a. fst (accesses (\<lambda>d. PyList (map (\<lambda>f. PyStr (field_name f)) (field_descs d)))
                ''fields_by_name'' (Suc (Suc (Suc 0)))
                (\<lparr>cpp_self = Pair, inst_dict = []\<rparr>, \<lparr>objects = [], generator_calls = 0\<rparr>))
            = [Inr a, Inr a, Inr a])"
proof -
  let ?g = "\<lambda>d. PyList (map (\<lambda>f. PyStr (field_name f)) (field_descs d))"
  let ?st = "(\<lparr>cpp_self = Pair, inst_dict = []\<rparr>, \<lparr>objects = [], generator_calls = 0\<rparr>)"
  have run: "accesses ?g ''fields_by_name'' (Suc (Suc (Suc 0))) ?st
      = ([Inr 0, Inr 0, Inr 0],
         (\<lparr>cpp_self = Pair, inst_dict = [(''_cache_fields_by_name'', 0)]\<rparr>,
          \<lparr>objects = [PyList [PyStr ''a'', PyStr ''b'', PyStr ''xs'', PyStr ''m'']],
           generator_calls = 1\<rparr>))"
    by (simp add: DefConstantProperty_wrapper_def inst_hasattr_def inst_getattr_def
        inst_setattr_def Let_def Pair_def)
  from DefConstantProperty_generator_once [of ?g "''fields_by_name''" "Suc (Suc (Suc 0))" ?st]
  obtain a where "fst (accesses ?g ''fields_by_name'' (Suc (Suc (Suc 0))) ?st)
                    = replicate (Suc (Suc (Suc 0))) (Inr a)"
    by blast
  then have "\<exists>a. fst (accesses ?g ''fields_by_name'' (Suc (Suc (Suc 0))) ?st) = [Inr a, Inr a, Inr a]"
    by (simp del: accesses.simps)
  with run show ?thesis by (rule conjI)
qed

subsection \<open>The wrapped-proto marker\<close>

text \<open>
  C10. \<open>is_wrapped_c_proto\<close> answers whether the object has an attribute named
  \<open>_is_wrapped_c_proto\<close>; the value of the attribute does not matter, so an object that
  carries it with value false is reported as wrapped. Every instance of the base message
  class exposes the attribute with value true.
\<close>

theorem IsWrappedCProto_marker:
  "IsWrappedCProto obj = hasattr obj ''_is_wrapped_c_proto''
   \<and> IsWrappedCProto (PyInstance attrs) = (''_is_wrapped_c_proto'' \<in> fst ` set attrs)
   \<and> IsWrappedCProto (PyInstance ((''_is_wrapped_c_proto'', v) # attrs))
   \<and> IsWrappedCProto (PyInstance [(''_is_wrapped_c_proto'', PyBool False)])
   \<and> getattr (PyInstance (ProtoMessage_properties message)) ''_is_wrapped_c_proto''
       = Some (PyBool True)
   \<and> IsWrappedCProto (PyInstance (ProtoMessage_properties message))"
  by (simp add: IsWrappedCProto_def hasattr_def kIsWrappedCProtoAttr_def
      ProtoMessage_properties_def map_of_eq_None_iff)

theorem IsWrappedCProto_marker_witness:
  "IsWrappedCProto (PyInstance [(''x'', PyInt 1), (''_is_wrapped_c_proto'', PyNone)])
   \<and> \<not> IsWrappedCProto (PyInstance [(''x'', PyInt 1)])
   \<and> \<not> IsWrappedCProto (PyStr ''_is_wrapped_c_proto'')
   \<and> IsWrappedCProto (PyInstance (ProtoMessage_properties \<lparr>descriptor = Pair, field_values = []\<rparr>))"
proof -
  note marker = IsWrappedCProto_marker
  have "IsWrappedCProto (PyInstance [(''x'', PyInt 1), (''_is_wrapped_c_proto'', PyNone)])"
    using marker [of "PyNone" "[(''x'', PyInt 1), (''_is_wrapped_c_proto'', PyNone)]"] by simp
  moreover have "\<not> IsWrappedCProto (PyInstance [(''x'', PyInt 1)])"
    using marker [of "PyNone" "[(''x'', PyInt 1)]"] by simp
  moreover have "\<not> IsWrappedCProto (PyStr ''_is_wrapped_c_proto'')"
    using marker [of "PyStr ''_is_wrapped_c_proto''"] by (simp add: hasattr_def)
  moreover have "IsWrappedCProto (PyInstance (ProtoMessage_properties \<lparr>descriptor = Pair, field_values = []\<rparr>))"
    using marker [of PyNone "[]" PyNone "\<lparr>descriptor = Pair, field_values = []\<rparr>"] by simp
  ultimately show ?thesis by simp
qed

end
